theory Spec2Isabelle
  imports Main "HOL-Library.Multiset"
begin

section \<open>Values and errors\<close>

text \<open>
  The exceptions that the handlers of \<^verbatim>\<open>backend/server.py\<close> can meet. All of them
  are subclasses of Python's \<^verbatim>\<open>Exception\<close>.
  \<^item> \<open>ValidationError\<close>: pydantic refuses to build a model (a required field is missing);
  \<^item> \<open>TypeError\<close>: a call with an unexpected keyword, or \<^verbatim>\<open>json.dumps\<close> on a value
    that is not serialisable;
  \<^item> \<open>StorageError\<close>: the exception the MongoDB driver raises when the store is
    unreachable or rejects an operation;
  \<^item> \<open>WebSocketDisconnect\<close>: the peer closed the live channel;
  \<^item> \<open>TransportError\<close>: any other failure of a read or write on a live channel.
\<close>

datatype error = ValidationError | TypeError | StorageError | WebSocketDisconnect | TransportError

text \<open>\<^verbatim>\<open>datetime\<close> values are points in time, counted in microseconds.\<close>

type_synonym datetime = int

text \<open>
  Python values as far as the handlers build them (the dictionaries handed to
  \<^verbatim>\<open>json.dumps\<close>), and the JSON documents that \<^verbatim>\<open>json.dumps\<close> produces. A frame
  written to a live channel is identified with the JSON document its text encodes.
\<close>

datatype pyval = Str string | Datetime datetime | Dict "(string \<times> pyval) list"

datatype json = JStr string | JObj "(string \<times> json) list"

text \<open>
  \<^verbatim>\<open>json.dumps(v)\<close> without a \<^verbatim>\<open>default=\<close> hook: strings and dictionaries with
  string keys are serialised, a \<^verbatim>\<open>datetime\<close> raises \<^verbatim>\<open>TypeError\<close>.
\<close>

fun json_dumps :: "pyval \<Rightarrow> error + json"
  and json_dumps_items :: "(string \<times> pyval) list \<Rightarrow> error + (string \<times> json) list" where
  "json_dumps (Str s) = Inr (JStr s)"
| "json_dumps (Datetime t) = Inl TypeError"
| "json_dumps (Dict kvs) =
     (case json_dumps_items kvs of Inl e \<Rightarrow> Inl e | Inr js \<Rightarrow> Inr (JObj js))"
| "json_dumps_items [] = Inr []"
| "json_dumps_items (kv # kvs) =
     (case json_dumps (snd kv) of
        Inl e \<Rightarrow> Inl e
      | Inr j \<Rightarrow> (case json_dumps_items kvs of
                   Inl e \<Rightarrow> Inl e
                 | Inr js \<Rightarrow> Inr ((fst kv, j) # js)))"

section \<open>Models\<close>

record LoginRequest =
  password :: string

record LoginResponse =
  success :: bool
  user :: "string option"
  token :: string
  message :: string

record MessageCreate =
  receiver :: string
  encrypted_content :: string

record User =
  id_user :: string
  username :: string
  created_at :: datetime

record Message =
  id_msg :: string
  sender :: string
  receiver :: string
  encrypted_content :: string
  timestamp :: datetime

text \<open>
  Building a \<^verbatim>\<open>LoginResponse\<close> from keyword arguments: \<open>None\<close> stands for a keyword
  that the call does not pass. \<^verbatim>\<open>success\<close>, \<^verbatim>\<open>token\<close> and \<^verbatim>\<open>message\<close> have no
  default, so pydantic raises \<^verbatim>\<open>ValidationError\<close> when one is missing; \<^verbatim>\<open>user\<close>
  defaults to \<^verbatim>\<open>None\<close>.
\<close>

definition LoginResponse_init ::
  "bool option \<Rightarrow> string option \<Rightarrow> string option \<Rightarrow> string option \<Rightarrow> error + LoginResponse" where
  "LoginResponse_init success_kw user_kw token_kw message_kw =
     (case success_kw of
        None \<Rightarrow> Inl ValidationError
      | Some s \<Rightarrow>
          (case token_kw of
             None \<Rightarrow> Inl ValidationError
           | Some t \<Rightarrow>
               (case message_kw of
                  None \<Rightarrow> Inl ValidationError
                | Some m \<Rightarrow> Inr \<lparr>success = s, user = user_kw, token = t, message = m\<rparr>)))"

text \<open>
  Building a \<^verbatim>\<open>MessageCreate\<close> from a request body: both fields are required, and
  \<^verbatim>\<open>str\<close> puts no constraint on the text itself.
\<close>

definition MessageCreate_init :: "string option \<Rightarrow> string option \<Rightarrow> error + MessageCreate" where
  "MessageCreate_init receiver_kw encrypted_content_kw =
     (case receiver_kw of
        None \<Rightarrow> Inl ValidationError
      | Some r \<Rightarrow>
          (case encrypted_content_kw of
             None \<Rightarrow> Inl ValidationError
           | Some c \<Rightarrow> Inr \<lparr>MessageCreate.receiver = r, MessageCreate.encrypted_content = c\<rparr>))"

text \<open>
  \<^verbatim>\<open>msg_obj.dict(**kwargs)\<close>. pydantic's \<^verbatim>\<open>BaseModel.dict\<close> takes keyword-only
  parameters from a fixed list; any other keyword is a \<^verbatim>\<open>TypeError\<close> of the call.
  The fields come out as they are stored: the timestamp stays a \<^verbatim>\<open>datetime\<close>.
\<close>

definition dict_keywords :: "string list" where
  "dict_keywords =
     [''include'', ''exclude'', ''by_alias'', ''skip_defaults'',
      ''exclude_unset'', ''exclude_defaults'', ''exclude_none'']"

definition Message_dict :: "string list \<Rightarrow> Message \<Rightarrow> error + pyval" where
  "Message_dict kwargs m =
     (if list_all (\<lambda>k. k \<in> set dict_keywords) kwargs
      then Inr (Dict [(''id'', Str (id_msg m)),
                      (''sender'', Str (sender m)),
                      (''receiver'', Str (receiver m)),
                      (''encrypted_content'', Str (encrypted_content m)),
                      (''timestamp'', Datetime (timestamp m))])
      else Inl TypeError)"

section \<open>The state of the server\<close>

text \<open>
  A live channel (a \<^verbatim>\<open>WebSocket\<close> object) is known by a number. The state holds the
  two collections of the History Store with their documents in insertion order, whether
  the store answers, the process-wide dictionary \<^verbatim>\<open>active_connections\<close>, the channels
  on which a transport operation raises (and what it raises), and the frames written so
  far to each channel, oldest first.
\<close>

type_synonym websocket = nat

record world =
  db_up :: bool
  users :: "User list"
  messages :: "Message list"
  active_connections :: "string \<rightharpoonup> websocket"
  ws_fault :: "websocket \<rightharpoonup> error"
  outbox :: "(websocket \<times> json) list"

definition initial_world :: world where
  "initial_world =
     \<lparr>db_up = True, users = [], messages = [], active_connections = Map.empty,
      ws_fault = Map.empty, outbox = []\<rparr>"

subsection \<open>The History Store\<close>

definition users_find_one :: "string \<Rightarrow> world \<Rightarrow> error + User option" where
  "users_find_one name w =
     (if db_up w then Inr (find (\<lambda>u. username u = name) (users w)) else Inl StorageError)"

text \<open>
  The store keeps a \<^verbatim>\<open>datetime\<close> as a whole number of milliseconds: when a document
  is written, the driver drops what lies below the millisecond. \<open>stored_doc\<close> is a
  message as the store keeps it and hands it back.
\<close>

definition bson_datetime :: "datetime \<Rightarrow> datetime" where
  "bson_datetime t = (t div 1000) * 1000"

definition stored_doc :: "Message \<Rightarrow> Message" where
  "stored_doc m = m\<lparr>timestamp := bson_datetime (timestamp m)\<rparr>"

definition users_insert_one :: "User \<Rightarrow> world \<Rightarrow> error + world" where
  "users_insert_one u w =
     (if db_up w
      then Inr (w\<lparr>users := users w @ [u\<lparr>created_at := bson_datetime (created_at u)\<rparr>]\<rparr>)
      else Inl StorageError)"

definition messages_insert_one :: "Message \<Rightarrow> world \<Rightarrow> error + world" where
  "messages_insert_one m w =
     (if db_up w then Inr (w\<lparr>messages := messages w @ [stored_doc m]\<rparr>) else Inl StorageError)"

text \<open>The filter \<^verbatim>\<open>{"$or": [{"sender": user}, {"receiver": user}]}\<close>.\<close>

definition involves :: "string \<Rightarrow> Message \<Rightarrow> bool" where
  "involves u m = (sender m = u \<or> receiver m = u)"

text \<open>
  \<^verbatim>\<open>find(query).sort("timestamp", 1).to_list(1000)\<close>: the matching documents in
  ascending order of timestamp, cut after the first 1000. The store is taken to keep
  documents with equal timestamps in insertion order; no result below depends on the
  order among equal timestamps.
\<close>

definition messages_find_sorted :: "string \<Rightarrow> world \<Rightarrow> error + Message list" where
  "messages_find_sorted u w =
     (if db_up w
      then Inr (take 1000 (sort_key timestamp (filter (involves u) (messages w))))
      else Inl StorageError)"

subsection \<open>Live channels and the registry\<close>

text \<open>\<^verbatim>\<open>await websocket.accept()\<close>.\<close>

definition accept :: "websocket \<Rightarrow> world \<Rightarrow> error + world" where
  "accept sock w = (case ws_fault w sock of Some e \<Rightarrow> Inl e | None \<Rightarrow> Inr w)"

text \<open>\<^verbatim>\<open>await websocket.send_text(frame)\<close>.\<close>

definition send_text :: "websocket \<Rightarrow> json \<Rightarrow> world \<Rightarrow> error + world" where
  "send_text sock frame w =
     (case ws_fault w sock of
        Some e \<Rightarrow> Inl e
      | None \<Rightarrow> Inr (w\<lparr>outbox := outbox w @ [(sock, frame)]\<rparr>))"

text \<open>\<^verbatim>\<open>active_connections[user] = websocket\<close>.\<close>

definition register :: "string \<Rightarrow> websocket \<Rightarrow> world \<Rightarrow> world" where
  "register u sock w = w\<lparr>active_connections := (active_connections w)(u \<mapsto> sock)\<rparr>"

text \<open>
  \<^verbatim>\<open>active_connections.pop(user, None)\<close>: with a default, \<^verbatim>\<open>pop\<close> returns the default
  for a missing key instead of raising \<^verbatim>\<open>KeyError\<close>.
\<close>

definition unregister :: "string \<Rightarrow> world \<Rightarrow> world" where
  "unregister u w = w\<lparr>active_connections := (active_connections w)(u := None)\<rparr>"

definition lookup :: "string \<Rightarrow> world \<Rightarrow> websocket option" where
  "lookup u w = active_connections w u"

section \<open>Authentication\<close>

definition USERS :: "string \<rightharpoonup> string" where
  "USERS = [''alphabravocharlie'' \<mapsto> ''Alpha'', ''bravoalphacharlie'' \<mapsto> ''Bravo'']"

text \<open>
  \<^verbatim>\<open>login\<close>. The results of the two \<^verbatim>\<open>uuid.uuid4()\<close> calls and of
  \<^verbatim>\<open>datetime.utcnow()\<close> are inputs: \<open>uid\<close> and \<open>now\<close> for a new \<^verbatim>\<open>User\<close>, \<open>tok\<close>
  for the token.
\<close>

definition login ::
  "LoginRequest \<Rightarrow> string \<Rightarrow> datetime \<Rightarrow> string \<Rightarrow> world \<Rightarrow> (error + LoginResponse) \<times> world" where
  "login request uid now tok w =
     (case USERS (password request) of
        Some name \<Rightarrow>
          (case users_find_one name w of
             Inl e \<Rightarrow> (Inl e, w)
           | Inr (Some existing_user) \<Rightarrow>
               (LoginResponse_init (Some True) (Some name) (Some tok)
                  (Some (''Welcome '' @ name @ ''!'')), w)
           | Inr None \<Rightarrow>
               (case users_insert_one \<lparr>id_user = uid, username = name, created_at = now\<rparr> w of
                  Inl e \<Rightarrow> (Inl e, w)
                | Inr w1 \<Rightarrow>
                    (LoginResponse_init (Some True) (Some name) (Some tok)
                       (Some (''Welcome '' @ name @ ''!'')), w1)))
      | None \<Rightarrow> (LoginResponse_init (Some False) None None (Some ''Invalid password''), w))"

section \<open>The relay service\<close>

text \<open>
  The body of the \<^verbatim>\<open>try\<close> block of \<^verbatim>\<open>send_message\<close>, in Python's order of
  evaluation: the channel is read from the registry by the caller, then the argument of
  \<^verbatim>\<open>send_text\<close> is built (\<^verbatim>\<open>msg_obj.dict(default=str)\<close>, then \<^verbatim>\<open>json.dumps\<close>
  of the notification), then the frame is written.
\<close>

definition notify :: "websocket \<Rightarrow> Message \<Rightarrow> world \<Rightarrow> error + world" where
  "notify sock m w =
     (case Message_dict [''default''] m of
        Inl e \<Rightarrow> Inl e
      | Inr d \<Rightarrow>
          (case json_dumps (Dict [(''type'', Str ''new_message''), (''message'', d)]) of
             Inl e \<Rightarrow> Inl e
           | Inr frame \<Rightarrow> send_text sock frame w))"

text \<open>
  The object \<^verbatim>\<open>msg_obj\<close> that \<^verbatim>\<open>send_message\<close> builds. \<open>new_id\<close> is the result
  of \<^verbatim>\<open>uuid.uuid4()\<close> in the default factory of \<^verbatim>\<open>id\<close>, and \<open>now\<close> that of
  \<^verbatim>\<open>datetime.utcnow()\<close> in the default factory of \<^verbatim>\<open>timestamp\<close>.
\<close>

definition msg_obj :: "MessageCreate \<Rightarrow> string \<Rightarrow> string \<Rightarrow> datetime \<Rightarrow> Message" where
  "msg_obj message_arg sender_arg new_id now =
     \<lparr>id_msg = new_id, sender = sender_arg,
      receiver = MessageCreate.receiver message_arg,
      encrypted_content = MessageCreate.encrypted_content message_arg,
      timestamp = now\<rparr>"

text \<open>
  \<^verbatim>\<open>send_message\<close>. An exception of the store leaves the handler; an exception inside
  the \<^verbatim>\<open>try\<close> block is caught and the receiver's entry is popped.
\<close>

definition send_message ::
  "MessageCreate \<Rightarrow> string \<Rightarrow> string \<Rightarrow> datetime \<Rightarrow> world \<Rightarrow> (error + Message) \<times> world" where
  "send_message message_arg sender_arg new_id now w =
     (case messages_insert_one (msg_obj message_arg sender_arg new_id now) w of
        Inl e \<Rightarrow> (Inl e, w)
      | Inr w1 \<Rightarrow>
          (case active_connections w1 (MessageCreate.receiver message_arg) of
             None \<Rightarrow> (Inr (msg_obj message_arg sender_arg new_id now), w1)
           | Some sock \<Rightarrow>
               (case notify sock (msg_obj message_arg sender_arg new_id now) w1 of
                  Inl e \<Rightarrow>
                    (Inr (msg_obj message_arg sender_arg new_id now),
                     unregister (MessageCreate.receiver message_arg) w1)
                | Inr w2 \<Rightarrow> (Inr (msg_obj message_arg sender_arg new_id now), w2))))"

text \<open>
  The route \<^verbatim>\<open>POST /api/messages\<close> as the framework calls \<^verbatim>\<open>send_message\<close>: the
  body must carry both fields of \<^verbatim>\<open>MessageCreate\<close> and the query must carry
  \<^verbatim>\<open>sender\<close>; a missing one is refused before the handler runs.
\<close>

definition post_messages ::
  "string option \<Rightarrow> string option \<Rightarrow> string option \<Rightarrow> string \<Rightarrow> datetime \<Rightarrow> world
     \<Rightarrow> (error + Message) \<times> world" where
  "post_messages sender_q receiver_f encrypted_content_f new_id now w =
     (case MessageCreate_init receiver_f encrypted_content_f of
        Inl e \<Rightarrow> (Inl e, w)
      | Inr body \<Rightarrow>
          (case sender_q of
             None \<Rightarrow> (Inl ValidationError, w)
           | Some s \<Rightarrow> send_message body s new_id now w))"

text \<open>
  \<^verbatim>\<open>get_messages\<close>. Each stored document was written from a \<^verbatim>\<open>Message\<close>, and
  \<^verbatim>\<open>Message(**msg)\<close> reads it back field by field, as the store kept it.
\<close>

definition get_messages :: "string \<Rightarrow> world \<Rightarrow> (error + Message list) \<times> world" where
  "get_messages u w =
     (case messages_find_sorted u w of
        Inl e \<Rightarrow> (Inl e, w)
      | Inr msgs \<Rightarrow> (Inr (map (\<lambda>msg. msg) msgs), w))"

text \<open>The list a successful \<^verbatim>\<open>get_messages\<close> returns, and the messages in it with a given id.\<close>

definition fetched :: "string \<Rightarrow> world \<Rightarrow> Message list" where
  "fetched u w = (case fst (get_messages u w) of Inr ms \<Rightarrow> ms | Inl e \<Rightarrow> [])"

definition occurrences :: "string \<Rightarrow> Message list \<Rightarrow> Message list" where
  "occurrences i ms = filter (\<lambda>m. id_msg m = i) ms"

section \<open>The live channel handler\<close>

text \<open>
  What one \<^verbatim>\<open>await websocket.receive_text()\<close> gives: the text of an inbound frame,
  or an exception (\<^verbatim>\<open>WebSocketDisconnect\<close> when the peer closed, another exception
  on a transport error or on a frame that carries no text). The handler is \<open>Open\<close>
  from the registration until an exception ends it.
\<close>

datatype received = Text string | Raised error

datatype phase = Open | Closed

text \<open>The two \<^verbatim>\<open>except\<close> clauses of \<^verbatim>\<open>websocket_endpoint\<close>.\<close>

definition on_exception :: "string \<Rightarrow> error \<Rightarrow> world \<Rightarrow> world" where
  "on_exception u e w =
     (if e = WebSocketDisconnect then unregister u w else unregister u w)"

text \<open>One turn of the \<^verbatim>\<open>while True\<close> loop, under the \<^verbatim>\<open>try\<close>.\<close>

definition loop_body :: "websocket \<Rightarrow> string \<Rightarrow> received \<Rightarrow> world \<Rightarrow> phase \<times> world" where
  "loop_body sock u r w =
     (case r of
        Raised e \<Rightarrow> (Closed, on_exception u e w)
      | Text data \<Rightarrow>
          (case json_dumps (Dict [(''type'', Str ''pong''), (''data'', Str data)]) of
             Inl e \<Rightarrow> (Closed, on_exception u e w)
           | Inr frame \<Rightarrow>
               (case send_text sock frame w of
                  Inl e \<Rightarrow> (Closed, on_exception u e w)
                | Inr w1 \<Rightarrow> (Open, w1))))"

text \<open>
  The loop over the outcomes of the successive reads. When they are used up the handler
  is suspended in \<^verbatim>\<open>receive_text\<close>, still \<open>Open\<close>.
\<close>

fun ws_loop :: "websocket \<Rightarrow> string \<Rightarrow> received list \<Rightarrow> world \<Rightarrow> phase \<times> world" where
  "ws_loop sock u [] w = (Open, w)"
| "ws_loop sock u (r # rs) w =
     (case loop_body sock u r w of
        (Closed, w1) \<Rightarrow> (Closed, w1)
      | (Open, w1) \<Rightarrow> ws_loop sock u rs w1)"

text \<open>
  \<^verbatim>\<open>websocket_endpoint\<close>: the handshake and the registration come before the
  \<^verbatim>\<open>try\<close>, so a failed handshake leaves the handler with nothing registered.
\<close>

definition websocket_open :: "websocket \<Rightarrow> string \<Rightarrow> world \<Rightarrow> error + world" where
  "websocket_open sock u w =
     (case accept sock w of Inl e \<Rightarrow> Inl e | Inr w1 \<Rightarrow> Inr (register u sock w1))"

definition websocket_endpoint ::
  "websocket \<Rightarrow> string \<Rightarrow> received list \<Rightarrow> world \<Rightarrow> (error + phase) \<times> world" where
  "websocket_endpoint sock u rs w =
     (case websocket_open sock u w of
        Inl e \<Rightarrow> (Inl e, w)
      | Inr w1 \<Rightarrow> (case ws_loop sock u rs w1 of (ph, w2) \<Rightarrow> (Inr ph, w2)))"

section \<open>A long conversation\<close>

text \<open>
  The state after Alpha has sent \<open>n\<close> messages to Bravo, one per millisecond, with
  nobody connected: the \<open>k\<close>-th send draws the id \<open>uuid_no k\<close>.
\<close>

definition uuid_no :: "nat \<Rightarrow> string" where
  "uuid_no k =
     ''00000000-0000-4000-8000-'' @ map (\<lambda>i. char_of (48 + (k div 10 ^ i) mod 10)) (rev [0..<12])"

definition to_bravo :: MessageCreate where
  "to_bravo = \<lparr>MessageCreate.receiver = ''Bravo'', MessageCreate.encrypted_content = ''CIPHERTEXT_1''\<rparr>"

primrec history :: "nat \<Rightarrow> world" where
  "history 0 = initial_world"
| "history (Suc n) = snd (send_message to_bravo ''Alpha'' (uuid_no n) (int n * 1000) (history n))"

section \<open>Facts about the store and the send path\<close>

text \<open>
  The notification of \<^verbatim>\<open>send_message\<close> is never written: \<^verbatim>\<open>dict\<close> refuses the
  keyword \<^verbatim>\<open>default\<close>, so the \<^verbatim>\<open>try\<close> block always ends in its handler.
\<close>

lemma notify_raises: "notify sock m w = Inl TypeError"
  by (simp add: notify_def Message_dict_def dict_keywords_def)

lemma get_messages_up:
  "db_up w \<Longrightarrow>
   get_messages u w = (Inr (take 1000 (sort_key timestamp (filter (involves u) (messages w)))), w)"
  by (simp add: get_messages_def messages_find_sorted_def)

lemma fetched_up:
  "db_up w \<Longrightarrow> fetched u w = take 1000 (sort_key timestamp (filter (involves u) (messages w)))"
  by (simp add: fetched_def get_messages_up)

lemma stored_doc_fields:
  "id_msg (stored_doc m) = id_msg m"
  "sender (stored_doc m) = sender m"
  "receiver (stored_doc m) = receiver m"
  "encrypted_content (stored_doc m) = encrypted_content m"
  "timestamp (stored_doc m) = bson_datetime (timestamp m)"
  by (simp_all add: stored_doc_def)

lemma involves_stored_doc: "involves u (stored_doc m) = involves u m"
  by (simp add: involves_def stored_doc_fields)

lemma stored_doc_whole_millisecond:
  "stored_doc (msg_obj mc s i (k * 1000)) = msg_obj mc s i (k * 1000)"
  by (simp add: stored_doc_def msg_obj_def bson_datetime_def)

lemma send_message_up:
  "db_up w \<Longrightarrow>
   send_message mc s i t w =
     (Inr (msg_obj mc s i t),
      if active_connections w (MessageCreate.receiver mc) = None
      then w\<lparr>messages := messages w @ [stored_doc (msg_obj mc s i t)]\<rparr>
      else unregister (MessageCreate.receiver mc)
             (w\<lparr>messages := messages w @ [stored_doc (msg_obj mc s i t)]\<rparr>))"
  by (simp add: send_message_def messages_insert_one_def notify_raises split: option.splits)

lemma send_message_messages:
  "db_up w \<Longrightarrow>
   messages (snd (send_message mc s i t w)) = messages w @ [stored_doc (msg_obj mc s i t)]"
  by (simp add: send_message_up unregister_def)

lemma send_message_db_up: "db_up w \<Longrightarrow> db_up (snd (send_message mc s i t w))"
  by (simp add: send_message_up unregister_def)

text \<open>A document that is not older than any other sorts last.\<close>

lemma insort_key_snoc:
  "f x \<le> f m \<Longrightarrow> insort_key f x (ys @ [m]) = insort_key f x ys @ [m]"
  by (induction ys) auto

lemma sort_key_snoc:
  "\<forall>x\<in>set xs. f x \<le> f m \<Longrightarrow> sort_key f (xs @ [m]) = sort_key f xs @ [m]"
  by (induction xs) (auto simp: insort_key_snoc)

text \<open>
  After a send with a fresh id, a participant with fewer than 1000 earlier messages
  finds the new message once in what \<^verbatim>\<open>get_messages\<close> returns.
\<close>

lemma fetched_after_send:
  assumes up: "db_up w"
    and fresh: "i \<notin> id_msg ` set (messages w)"
    and inv: "involves u (msg_obj mc s i t)"
    and room: "length (filter (involves u) (messages w)) < 1000"
  shows "occurrences i (fetched u (snd (send_message mc s i t w))) = [stored_doc (msg_obj mc s i t)]"
proof -
  let ?m = "stored_doc (msg_obj mc s i t)"
  let ?old = "filter (involves u) (messages w)"
  have len: "length (sort_key timestamp (?old @ [?m])) \<le> 1000"
    using room by simp
  have "fetched u (snd (send_message mc s i t w)) = take 1000 (sort_key timestamp (?old @ [?m]))"
    using up inv
    by (simp add: fetched_up send_message_db_up send_message_messages involves_stored_doc)
  also have "\<dots> = sort_key timestamp (?old @ [?m])"
    using len by (rule take_all)
  finally have f: "fetched u (snd (send_message mc s i t w)) = sort_key timestamp (?old @ [?m])" .
  have none: "filter (\<lambda>m. id_msg m = i) ?old = []"
    using fresh by (auto simp: filter_empty_conv)
  have "id_msg ?m = i" by (simp add: msg_obj_def stored_doc_fields)
  then have "filter (\<lambda>m. id_msg m = i) (?old @ [?m]) = [?m]"
    using none by simp
  then show ?thesis
    by (simp add: f occurrences_def filter_sort)
qed

subsection \<open>The long conversation\<close>

lemma history_eq:
  "history n =
     initial_world\<lparr>messages := map (\<lambda>k. msg_obj to_bravo ''Alpha'' (uuid_no k) (int k * 1000)) [0..<n]\<rparr>"
proof (induction n)
  case 0
  show ?case by (simp add: initial_world_def)
next
  case (Suc n)
  have up: "db_up (history n)" and nobody: "active_connections (history n) = Map.empty"
    by (simp_all add: Suc initial_world_def)
  show ?case
    by (simp add: send_message_up [OF up] nobody stored_doc_whole_millisecond) (simp add: Suc)
qed

lemma history_up: "db_up (history n)"
  by (simp add: history_eq initial_world_def)

lemma history_messages:
  "messages (history n) = map (\<lambda>k. msg_obj to_bravo ''Alpha'' (uuid_no k) (int k * 1000)) [0..<n]"
  by (simp add: history_eq)

lemma history_involves_alpha:
  "filter (involves ''Alpha'') (messages (history n)) = messages (history n)"
  by (simp add: history_messages involves_def msg_obj_def)

lemma history_length: "length (messages (history n)) = n"
  by (simp add: history_messages)

subsection \<open>The handler\<close>

lemma loop_body_closed:
  "fst (loop_body sock u r w) = Closed \<Longrightarrow> snd (loop_body sock u r w) = unregister u w"
  by (cases r) (auto simp: loop_body_def on_exception_def split: sum.splits)

lemma lookup_unregister: "lookup u (unregister u w) = None"
  by (simp add: lookup_def unregister_def)

lemma ws_loop_closed:
  "fst (ws_loop sock u rs w) = Closed \<Longrightarrow> lookup u (snd (ws_loop sock u rs w)) = None"
proof (induction rs arbitrary: w)
  case Nil
  then show ?case by simp
next
  case (Cons r rs)
  show ?case
  proof (cases "fst (loop_body sock u r w)")
    case Open
    then have "ws_loop sock u (r # rs) w = ws_loop sock u rs (snd (loop_body sock u r w))"
      by (cases "loop_body sock u r w") simp
    then show ?thesis
      using Cons by simp
  next
    case Closed
    then have "ws_loop sock u (r # rs) w = (Closed, unregister u w)"
      using loop_body_closed [OF Closed] by (cases "loop_body sock u r w") simp
    then show ?thesis
      by (simp add: lookup_unregister)
  qed
qed

lemma send_text_reaches:
  "ws_fault w sock = None \<Longrightarrow>
   send_text sock frame w = Inr (w\<lparr>outbox := outbox w @ [(sock, frame)]\<rparr>)"
  by (simp add: send_text_def)

text \<open>
  While the writes go through, the loop answers one text after the other and goes on
  with the reads that follow.
\<close>

lemma ws_loop_texts:
  "ws_fault w sock = None \<Longrightarrow>
   ws_loop sock u (map Text ds @ rs) w =
     ws_loop sock u rs
       (w\<lparr>outbox := outbox w
            @ map (\<lambda>d. (sock, JObj [(''type'', JStr ''pong''), (''data'', JStr d)])) ds\<rparr>)"
proof (induction ds arbitrary: w)
  case Nil
  show ?case by simp
next
  case (Cons d ds)
  let ?w1 = "w\<lparr>outbox := outbox w @ [(sock, JObj [(''type'', JStr ''pong''), (''data'', JStr d)])]\<rparr>"
  have step: "loop_body sock u (Text d) w = (Open, ?w1)"
    using Cons.prems by (simp add: loop_body_def send_text_reaches)
  have still: "ws_fault ?w1 sock = None"
    using Cons.prems by simp
  show ?case
    using Cons.IH [OF still] by (simp add: step)
qed

lemma ws_loop_raised: "ws_loop sock u (Raised e # rs) w = (Closed, unregister u w)"
  by (simp add: loop_body_def on_exception_def)

lemma unregister_register: "unregister u (register u sock w) = unregister u w"
  by (simp add: unregister_def register_def)

lemma websocket_endpoint_closed:
  "fst (websocket_endpoint sock u rs w) = Inr Closed \<Longrightarrow>
   lookup u (snd (websocket_endpoint sock u rs w)) = None"
proof (cases "websocket_open sock u w")
  case (Inl e)
  assume "fst (websocket_endpoint sock u rs w) = Inr Closed"
  with Inl show ?thesis
    by (simp add: websocket_endpoint_def)
next
  case (Inr w1)
  assume "fst (websocket_endpoint sock u rs w) = Inr Closed"
  with Inr have "fst (ws_loop sock u rs w1) = Closed"
    by (simp add: websocket_endpoint_def case_prod_beta)
  then have "lookup u (snd (ws_loop sock u rs w1)) = None"
    by (rule ws_loop_closed)
  with Inr show ?thesis
    by (simp add: websocket_endpoint_def case_prod_beta)
qed

section \<open>Authentication failure\<close>

text \<open>
  C1. A login whose password is not a recognised credential is claimed to return a
  well-formed response with \<open>success = False\<close> and the message \<open>Invalid password\<close>.
  The handler builds that response without the required \<^verbatim>\<open>token\<close> field, so the
  construction raises and the request ends in a server fault: at the password
  \<open>wrongpassword\<close> the handler returns no response at all, whatever the state.
\<close>

theorem login_wrongpassword_raises:
  "login \<lparr>password = ''wrongpassword''\<rparr> uid now tok w = (Inl ValidationError, w)"
  by (simp add: login_def USERS_def LoginResponse_init_def)

section \<open>Send, then fetch\<close>

text \<open>
  C2, as the code has it. When the store answers, the id drawn for the message is not
  yet in the store, and the store holds fewer than 1000 messages involving the sender
  and fewer than 1000 involving the receiver, then \<^verbatim>\<open>send_message\<close> returns the
  message built from its inputs, and \<^verbatim>\<open>get_messages\<close> for the sender and for the
  receiver each return exactly one message with that id: the message sent, with the
  sender, receiver and content given, and with its timestamp as the store keeps it.
\<close>

theorem send_then_fetch_once:
  assumes "db_up w"
    and "new_id \<notin> id_msg ` set (messages w)"
    and "length (filter (involves sender_arg) (messages w)) < 1000"
    and "length (filter (involves (MessageCreate.receiver mc)) (messages w)) < 1000"
  shows "fst (send_message mc sender_arg new_id now w)
           = Inr \<lparr>id_msg = new_id, sender = sender_arg, receiver = MessageCreate.receiver mc,
                  encrypted_content = MessageCreate.encrypted_content mc, timestamp = now\<rparr>
       \<and> occurrences new_id (fetched sender_arg (snd (send_message mc sender_arg new_id now w)))
           = [\<lparr>id_msg = new_id, sender = sender_arg, receiver = MessageCreate.receiver mc,
                encrypted_content = MessageCreate.encrypted_content mc,
                timestamp = bson_datetime now\<rparr>]
       \<and> occurrences new_id
             (fetched (MessageCreate.receiver mc) (snd (send_message mc sender_arg new_id now w)))
           = [\<lparr>id_msg = new_id, sender = sender_arg, receiver = MessageCreate.receiver mc,
                encrypted_content = MessageCreate.encrypted_content mc,
                timestamp = bson_datetime now\<rparr>]"
proof -
  have s: "involves sender_arg (msg_obj mc sender_arg new_id now)"
    and r: "involves (MessageCreate.receiver mc) (msg_obj mc sender_arg new_id now)"
    by (simp_all add: involves_def msg_obj_def)
  have d: "stored_doc (msg_obj mc sender_arg new_id now)
       = \<lparr>id_msg = new_id, sender = sender_arg, receiver = MessageCreate.receiver mc,
           encrypted_content = MessageCreate.encrypted_content mc,
           timestamp = bson_datetime now\<rparr>"
    by (simp add: stored_doc_def msg_obj_def)
  have "fst (send_message mc sender_arg new_id now w) = Inr (msg_obj mc sender_arg new_id now)"
    using assms(1) by (simp add: send_message_up)
  then show ?thesis
    using fetched_after_send [OF assms(1,2) s assms(3)]
      fetched_after_send [OF assms(1,2) r assms(4)]
    by (simp only: d) (simp add: msg_obj_def)
qed

text \<open>
  An instance: after two messages from Alpha to Bravo, Bravo answers Alpha at
  microsecond 1234567; both find the answer once, dated 1234000.
\<close>

theorem send_then_fetch_once_witness:
  "db_up (history (Suc (Suc 0)))
   \<and> ''11111111-1111-4111-8111-111111111111'' \<notin> id_msg ` set (messages (history (Suc (Suc 0))))
   \<and> length (filter (involves ''Bravo'') (messages (history (Suc (Suc 0))))) < 1000
   \<and> length (filter (involves ''Alpha'') (messages (history (Suc (Suc 0))))) < 1000
   \<and> fst (send_message
            \<lparr>MessageCreate.receiver = ''Alpha'', MessageCreate.encrypted_content = ''CIPHERTEXT_2''\<rparr>
            ''Bravo'' ''11111111-1111-4111-8111-111111111111'' 1234567 (history (Suc (Suc 0))))
       = Inr \<lparr>id_msg = ''11111111-1111-4111-8111-111111111111'', sender = ''Bravo'',
              receiver = ''Alpha'', encrypted_content = ''CIPHERTEXT_2'', timestamp = 1234567\<rparr>
   \<and> occurrences ''11111111-1111-4111-8111-111111111111''
        (fetched ''Bravo''
           (snd (send_message
                   \<lparr>MessageCreate.receiver = ''Alpha'', MessageCreate.encrypted_content = ''CIPHERTEXT_2''\<rparr>
                   ''Bravo'' ''11111111-1111-4111-8111-111111111111'' 1234567
                   (history (Suc (Suc 0))))))
       = [\<lparr>id_msg = ''11111111-1111-4111-8111-111111111111'', sender = ''Bravo'',
            receiver = ''Alpha'', encrypted_content = ''CIPHERTEXT_2'', timestamp = 1234000\<rparr>]
   \<and> occurrences ''11111111-1111-4111-8111-111111111111''
        (fetched ''Alpha''
           (snd (send_message
                   \<lparr>MessageCreate.receiver = ''Alpha'', MessageCreate.encrypted_content = ''CIPHERTEXT_2''\<rparr>
                   ''Bravo'' ''11111111-1111-4111-8111-111111111111'' 1234567
                   (history (Suc (Suc 0))))))
       = [\<lparr>id_msg = ''11111111-1111-4111-8111-111111111111'', sender = ''Bravo'',
            receiver = ''Alpha'', encrypted_content = ''CIPHERTEXT_2'', timestamp = 1234000\<rparr>]"
proof -
  let ?w = "history (Suc (Suc 0))"
  let ?i = "''11111111-1111-4111-8111-111111111111''"
  let ?mc = "\<lparr>MessageCreate.receiver = ''Alpha'', MessageCreate.encrypted_content = ''CIPHERTEXT_2''\<rparr>"
  have h1: "db_up ?w" by (rule history_up)
  have h2: "?i \<notin> id_msg ` set (messages ?w)"
    by (simp add: history_messages msg_obj_def uuid_no_def del: history.simps)
  have h3: "length (filter (involves ''Bravo'') (messages ?w)) < 1000"
    by (simp add: history_messages del: history.simps)
  have h4: "length (filter (involves (MessageCreate.receiver ?mc)) (messages ?w)) < 1000"
    by (simp add: history_messages del: history.simps)
  have t: "bson_datetime 1234567 = 1234000"
    by (simp add: bson_datetime_def)
  show ?thesis
    using h1 h2 h3 h4 send_then_fetch_once [OF h1 h2 h3 h4, of 1234567]
    by (simp add: t del: history.simps)
qed

text \<open>
  The claim as first stated puts no bound on what the store already holds. It fails
  once Alpha has 1000 messages: the next send succeeds, but the list returned for Alpha
  holds no message with the new id, since the new message sorts after the 1000 that
  \<^verbatim>\<open>to_list(1000)\<close> keeps.
\<close>

theorem crowded_history_hides_new_message:
  "fst (send_message to_bravo ''Alpha'' ''ffffffff-ffff-4fff-bfff-ffffffffffff'' 1000000 (history 1000))
     = Inr (msg_obj to_bravo ''Alpha'' ''ffffffff-ffff-4fff-bfff-ffffffffffff'' 1000000)
   \<and> occurrences ''ffffffff-ffff-4fff-bfff-ffffffffffff''
        (fetched ''Alpha''
           (snd (send_message to_bravo ''Alpha'' ''ffffffff-ffff-4fff-bfff-ffffffffffff'' 1000000
                   (history 1000)))) = []"
proof -
  let ?i = "''ffffffff-ffff-4fff-bfff-ffffffffffff''"
  let ?m = "stored_doc (msg_obj to_bravo ''Alpha'' ?i 1000000)"
  let ?old = "messages (history 1000)"
  have inv: "involves ''Alpha'' ?m"
    by (simp add: involves_def msg_obj_def stored_doc_fields)
  have older: "\<forall>x\<in>set ?old. timestamp x \<le> timestamp ?m"
    by (auto simp: history_messages msg_obj_def stored_doc_fields bson_datetime_def)
  have len: "length (sort_key timestamp ?old) = 1000"
    by (simp add: history_length)
  have "fetched ''Alpha'' (snd (send_message to_bravo ''Alpha'' ?i 1000000 (history 1000)))
          = take 1000 (sort_key timestamp (?old @ [?m]))"
    using inv
    by (simp add: fetched_up send_message_db_up send_message_messages history_up
        history_involves_alpha)
  also have "\<dots> = take 1000 (sort_key timestamp ?old @ [?m])"
    using older by (simp only: sort_key_snoc)
  also have "\<dots> = sort_key timestamp ?old"
    using len by simp
  finally have f:
    "fetched ''Alpha'' (snd (send_message to_bravo ''Alpha'' ?i 1000000 (history 1000)))
          = sort_key timestamp ?old" .
  have "filter (\<lambda>m. id_msg m = ?i) ?old = []"
    by (auto simp: filter_empty_conv history_messages msg_obj_def uuid_no_def)
  then have "occurrences ?i (sort_key timestamp ?old) = []"
    by (simp add: occurrences_def filter_sort)
  then have "occurrences ?i
        (fetched ''Alpha'' (snd (send_message to_bravo ''Alpha'' ?i 1000000 (history 1000)))) = []"
    by (simp only: f)
  moreover have "fst (send_message to_bravo ''Alpha'' ?i 1000000 (history 1000))
       = Inr (msg_obj to_bravo ''Alpha'' ?i 1000000)"
    by (simp add: send_message_up history_up)
  ultimately show ?thesis by blast
qed

section \<open>Storage failure\<close>

text \<open>
  C3. When the store does not answer, \<^verbatim>\<open>send_message\<close> fails with the store's
  error and leaves the state as it was: nothing is written to any channel, the registry
  and the stored messages are unchanged. \<^verbatim>\<open>get_messages\<close> fails with the same error
  and returns no list.
\<close>

theorem storage_failure_fails_whole_operation:
  assumes "\<not> db_up w"
  shows "send_message mc s i t w = (Inl StorageError, w)
       \<and> outbox (snd (send_message mc s i t w)) = outbox w
       \<and> active_connections (snd (send_message mc s i t w)) = active_connections w
       \<and> messages (snd (send_message mc s i t w)) = messages w
       \<and> get_messages u w = (Inl StorageError, w)"
  using assms
  by (simp add: send_message_def messages_insert_one_def get_messages_def messages_find_sorted_def)

text \<open>An instance: the store is down while Bravo is connected on channel 7.\<close>

theorem storage_failure_fails_whole_operation_witness:
  "\<not> db_up (register ''Bravo'' 7 (initial_world\<lparr>db_up := False\<rparr>))
   \<and> send_message to_bravo ''Alpha'' (uuid_no 0) 0 (register ''Bravo'' 7 (initial_world\<lparr>db_up := False\<rparr>))
       = (Inl StorageError, register ''Bravo'' 7 (initial_world\<lparr>db_up := False\<rparr>))
   \<and> lookup ''Bravo'' (snd (send_message to_bravo ''Alpha'' (uuid_no 0) 0
         (register ''Bravo'' 7 (initial_world\<lparr>db_up := False\<rparr>)))) = Some 7
   \<and> outbox (snd (send_message to_bravo ''Alpha'' (uuid_no 0) 0
         (register ''Bravo'' 7 (initial_world\<lparr>db_up := False\<rparr>)))) = []
   \<and> get_messages ''Bravo'' (register ''Bravo'' 7 (initial_world\<lparr>db_up := False\<rparr>))
       = (Inl StorageError, register ''Bravo'' 7 (initial_world\<lparr>db_up := False\<rparr>))"
proof -
  have h: "\<not> db_up (register ''Bravo'' 7 (initial_world\<lparr>db_up := False\<rparr>))"
    by (simp add: register_def initial_world_def)
  show ?thesis
    using h storage_failure_fails_whole_operation [OF h, of to_bravo "''Alpha''" "uuid_no 0" 0 "''Bravo''"]
    by (simp add: register_def initial_world_def lookup_def)
qed

section \<open>Supersession and the exit of an old handler\<close>

text \<open>
  C4. A handler that ends removes the entry stored under its identity, whichever
  channel that entry holds. After channel \<open>c1\<close> and then channel \<open>c2\<close> have been
  registered for \<open>x\<close>, the registry holds \<open>c2\<close>; when the handler of \<open>c1\<close> then
  closes, for whatever reason, \<open>x\<close> has no entry, and nothing has happened to the
  channels themselves.
\<close>

theorem old_handler_exit_removes_newer_entry:
  assumes "fst (loop_body c1 x r (register x c2 (register x c1 w))) = Closed"
  shows "lookup x (register x c2 (register x c1 w)) = Some c2
       \<and> lookup x (snd (loop_body c1 x r (register x c2 (register x c1 w)))) = None
       \<and> ws_fault (snd (loop_body c1 x r (register x c2 (register x c1 w)))) = ws_fault w"
  using loop_body_closed [OF assms]
  by (simp add: lookup_unregister) (simp add: lookup_def register_def unregister_def)

text \<open>An instance: Alpha connects on channel 1, then on channel 2; the peer of channel 1 leaves.\<close>

theorem old_handler_exit_removes_newer_entry_witness:
  "fst (loop_body 1 ''Alpha'' (Raised WebSocketDisconnect)
          (register ''Alpha'' 2 (register ''Alpha'' 1 initial_world))) = Closed
   \<and> lookup ''Alpha'' (register ''Alpha'' 2 (register ''Alpha'' 1 initial_world)) = Some 2
   \<and> lookup ''Alpha''
        (snd (loop_body 1 ''Alpha'' (Raised WebSocketDisconnect)
                (register ''Alpha'' 2 (register ''Alpha'' 1 initial_world)))) = None
   \<and> ws_fault
        (snd (loop_body 1 ''Alpha'' (Raised WebSocketDisconnect)
                (register ''Alpha'' 2 (register ''Alpha'' 1 initial_world)))) 2 = None"
proof -
  have h: "fst (loop_body 1 ''Alpha'' (Raised WebSocketDisconnect)
          (register ''Alpha'' 2 (register ''Alpha'' 1 initial_world))) = Closed"
    by (simp add: loop_body_def)
  show ?thesis
    using h old_handler_exit_removes_newer_entry [OF h]
    by (simp add: initial_world_def)
qed

section \<open>Best-effort delivery\<close>

text \<open>
  C5. When the store answers and either nobody is registered for the receiver or the
  notification to the registered channel fails, \<^verbatim>\<open>send_message\<close> returns the stored
  message. In the first case the state changes by the stored message only; in the
  second the receiver's entry is removed as well. Either way the receiver has no entry
  afterwards.
\<close>

theorem send_succeeds_without_delivery:
  assumes "db_up w"
    and "lookup (MessageCreate.receiver mc) w = None
         \<or> (\<exists>sock e. lookup (MessageCreate.receiver mc) w = Some sock
               \<and> notify sock (msg_obj mc s i t)
                    (w\<lparr>messages := messages w @ [stored_doc (msg_obj mc s i t)]\<rparr>) = Inl e)"
  shows "send_message mc s i t w =
           (Inr (msg_obj mc s i t),
            if lookup (MessageCreate.receiver mc) w = None
            then w\<lparr>messages := messages w @ [stored_doc (msg_obj mc s i t)]\<rparr>
            else unregister (MessageCreate.receiver mc)
                   (w\<lparr>messages := messages w @ [stored_doc (msg_obj mc s i t)]\<rparr>))
       \<and> lookup (MessageCreate.receiver mc) (snd (send_message mc s i t w)) = None"
  using assms
  by (auto simp add: send_message_def messages_insert_one_def lookup_def unregister_def)

text \<open>
  An instance: Bravo is registered on channel 7, the notification fails, the message is
  stored and returned, and Bravo's entry is gone.
\<close>

theorem send_succeeds_without_delivery_witness:
  "db_up (register ''Bravo'' 7 initial_world)
   \<and> lookup ''Bravo'' (register ''Bravo'' 7 initial_world) = Some 7
   \<and> notify 7 (msg_obj to_bravo ''Alpha'' (uuid_no 0) 1500)
        (register ''Bravo'' 7 initial_world
           \<lparr>messages := messages (register ''Bravo'' 7 initial_world)
                @ [stored_doc (msg_obj to_bravo ''Alpha'' (uuid_no 0) 1500)]\<rparr>)
       = Inl TypeError
   \<and> send_message to_bravo ''Alpha'' (uuid_no 0) 1500 (register ''Bravo'' 7 initial_world)
       = (Inr (msg_obj to_bravo ''Alpha'' (uuid_no 0) 1500),
          initial_world\<lparr>messages := [msg_obj to_bravo ''Alpha'' (uuid_no 0) 1000]\<rparr>)"
proof -
  let ?w = "register ''Bravo'' 7 initial_world"
  let ?m = "msg_obj to_bravo ''Alpha'' (uuid_no 0) 1500"
  have h1: "db_up ?w"
    by (simp add: register_def initial_world_def)
  have l: "lookup (MessageCreate.receiver to_bravo) ?w = Some 7"
    by (simp add: register_def lookup_def to_bravo_def)
  have n: "notify 7 ?m (?w\<lparr>messages := messages ?w @ [stored_doc ?m]\<rparr>) = Inl TypeError"
    by (rule notify_raises)
  have h2: "lookup (MessageCreate.receiver to_bravo) ?w = None
         \<or> (\<exists>sock e. lookup (MessageCreate.receiver to_bravo) ?w = Some sock
               \<and> notify sock ?m (?w\<lparr>messages := messages ?w @ [stored_doc ?m]\<rparr>) = Inl e)"
    using l n by blast
  have d: "stored_doc ?m = msg_obj to_bravo ''Alpha'' (uuid_no 0) 1000"
    by (simp add: stored_doc_def msg_obj_def bson_datetime_def)
  show ?thesis
    using h1 l n d send_succeeds_without_delivery [OF h1 h2]
    by (simp add: to_bravo_def) (simp add: register_def unregister_def initial_world_def)
qed

section \<open>The registry\<close>

text \<open>
  C6. The registry holds at most one channel per identity in every state, and
  registering is insert-or-replace: after \<open>c1\<close> and then \<open>c2\<close> have been registered
  for \<open>x\<close>, looking \<open>x\<close> up gives \<open>c2\<close> and nothing else. Registering is a plain
  assignment and has no failure; when two handshakes for \<open>x\<close> succeed one after
  the other, the second channel is the one registered.
\<close>

theorem register_supersedes:
  "card {c. lookup x w = Some c} \<le> 1
   \<and> lookup x (register x c2 (register x c1 w)) = Some c2
   \<and> {c. lookup x (register x c2 (register x c1 w)) = Some c} = {c2}
   \<and> (websocket_open c1 x w = Inr w1 \<and> websocket_open c2 x w1 = Inr w2 \<longrightarrow> lookup x w2 = Some c2)"
proof -
  have "card {c. lookup x w = Some c} \<le> 1"
    by (cases "lookup x w") simp_all
  then show ?thesis
    by (auto simp add: lookup_def register_def websocket_open_def split: sum.splits)
qed

text \<open>An instance: Alpha connects on channel 1, then on channel 2.\<close>

theorem register_supersedes_witness:
  "websocket_open 1 ''Alpha'' initial_world = Inr (register ''Alpha'' 1 initial_world)
   \<and> websocket_open 2 ''Alpha'' (register ''Alpha'' 1 initial_world)
       = Inr (register ''Alpha'' 2 (register ''Alpha'' 1 initial_world))
   \<and> lookup ''Alpha'' (register ''Alpha'' 2 (register ''Alpha'' 1 initial_world)) = Some 2
   \<and> card {c. lookup ''Alpha'' (register ''Alpha'' 2 (register ''Alpha'' 1 initial_world)) = Some c} \<le> 1"
proof -
  have h1: "websocket_open 1 ''Alpha'' initial_world = Inr (register ''Alpha'' 1 initial_world)"
    by (simp add: websocket_open_def accept_def initial_world_def)
  have h2: "websocket_open 2 ''Alpha'' (register ''Alpha'' 1 initial_world)
       = Inr (register ''Alpha'' 2 (register ''Alpha'' 1 initial_world))"
    by (simp add: websocket_open_def accept_def register_def initial_world_def)
  show ?thesis
    using h1 h2
      register_supersedes [of "''Alpha''" "register ''Alpha'' 2 (register ''Alpha'' 1 initial_world)"
        2 1 initial_world]
      register_supersedes [of "''Alpha''" initial_world 2 1 "register ''Alpha'' 1 initial_world"
        "register ''Alpha'' 2 (register ''Alpha'' 1 initial_world)"]
    by simp
qed

section \<open>Fetch\<close>

text \<open>
  C7, as the code has it. When the store answers, \<^verbatim>\<open>get_messages\<close> changes nothing
  and returns a list that is ordered by timestamp, oldest first, and holds the 1000
  oldest of the stored messages whose sender or receiver is the identity: every
  returned message is such a stored message, their number is the smaller of 1000 and
  the number of such messages, and no message left out is older than a returned one.
  When at most 1000 stored messages involve the identity, the list holds exactly these.
\<close>

theorem get_messages_oldest_thousand:
  assumes "db_up w"
  shows "get_messages u w = (Inr (fetched u w), w)
       \<and> sorted (map timestamp (fetched u w))
       \<and> mset (fetched u w) \<subseteq># mset (filter (involves u) (messages w))
       \<and> length (fetched u w) = min 1000 (length (filter (involves u) (messages w)))
       \<and> (\<forall>x \<in># mset (filter (involves u) (messages w)) - mset (fetched u w).
            \<forall>y \<in> set (fetched u w). timestamp y \<le> timestamp x)
       \<and> (length (filter (involves u) (messages w)) \<le> 1000 \<longrightarrow>
            mset (fetched u w) = mset (filter (involves u) (messages w)))"
proof -
  let ?all = "sort_key timestamp (filter (involves u) (messages w))"
  have f: "fetched u w = take 1000 ?all"
    using assms by (rule fetched_up)
  have split: "?all = take 1000 ?all @ drop 1000 ?all"
    by simp
  have srt: "sorted (map timestamp ?all)"
    by (rule sorted_sort_key)
  have m: "mset (filter (involves u) (messages w)) = mset (take 1000 ?all) + mset (drop 1000 ?all)"
    by (metis split mset_append mset_sort)
  have c1: "get_messages u w = (Inr (fetched u w), w)"
    using assms by (simp add: f get_messages_up)
  have c2: "sorted (map timestamp (fetched u w))"
    unfolding f take_map [symmetric] using srt by (rule sorted_wrt_take)
  have c3: "mset (fetched u w) \<subseteq># mset (filter (involves u) (messages w))"
    unfolding f m by (rule mset_subset_eq_add_left)
  have c4: "length (fetched u w) = min 1000 (length (filter (involves u) (messages w)))"
    by (simp add: f min.commute)
  have "sorted (map timestamp (take 1000 ?all) @ map timestamp (drop 1000 ?all))"
    using srt by (metis split map_append)
  then have "\<forall>y \<in> set (take 1000 ?all). \<forall>x \<in> set (drop 1000 ?all). timestamp y \<le> timestamp x"
    by (simp add: sorted_append)
  then have c5: "\<forall>x \<in># mset (filter (involves u) (messages w)) - mset (fetched u w).
            \<forall>y \<in> set (fetched u w). timestamp y \<le> timestamp x"
    unfolding f m by simp
  have c6: "length (filter (involves u) (messages w)) \<le> 1000 \<longrightarrow>
            mset (fetched u w) = mset (filter (involves u) (messages w))"
    by (simp add: f)
  from c1 c2 c3 c4 c5 c6 show ?thesis by blast
qed

text \<open>
  Two instances: after two messages Bravo is handed both, oldest first; after 1001
  messages Alpha is handed 1000.
\<close>

theorem get_messages_oldest_thousand_witness:
  "db_up (history (Suc (Suc 0)))
   \<and> length (filter (involves ''Bravo'') (messages (history (Suc (Suc 0))))) \<le> 1000
   \<and> get_messages ''Bravo'' (history (Suc (Suc 0)))
       = (Inr [msg_obj to_bravo ''Alpha'' (uuid_no 0) 0, msg_obj to_bravo ''Alpha'' (uuid_no 1) 1000],
          history (Suc (Suc 0)))
   \<and> sorted (map timestamp (fetched ''Bravo'' (history (Suc (Suc 0)))))
   \<and> mset (fetched ''Bravo'' (history (Suc (Suc 0))))
       = mset (filter (involves ''Bravo'') (messages (history (Suc (Suc 0)))))
   \<and> db_up (history 1001)
   \<and> length (fetched ''Alpha'' (history 1001)) = 1000"
proof -
  let ?w = "history (Suc (Suc 0))"
  have h1: "db_up ?w" by (rule history_up)
  have h2: "length (filter (involves ''Bravo'') (messages ?w)) \<le> 1000"
    by (simp add: history_messages del: history.simps)
  have f: "fetched ''Bravo'' ?w
       = [msg_obj to_bravo ''Alpha'' (uuid_no 0) 0, msg_obj to_bravo ''Alpha'' (uuid_no 1) 1000]"
    by (simp add: fetched_up [OF h1] history_messages involves_def msg_obj_def to_bravo_def
        del: history.simps)
  have h3: "db_up (history 1001)" by (rule history_up)
  have n: "length (filter (involves ''Alpha'') (messages (history 1001))) = 1001"
    by (simp only: history_involves_alpha history_length)
  show ?thesis
    using h1 h2 h3 get_messages_oldest_thousand [OF h1, of "''Bravo''"]
      get_messages_oldest_thousand [OF h3, of "''Alpha''"]
    by (simp add: f n del: history.simps)
qed

text \<open>
  The claim as first stated has the list hold exactly the stored messages of the
  identity. After 1001 messages from Alpha the list for Alpha is not a rearrangement of
  Alpha's stored messages: one is missing.
\<close>

theorem crowded_history_fetch_incomplete:
  "mset (fetched ''Alpha'' (history 1001))
     \<noteq> mset (filter (involves ''Alpha'') (messages (history 1001)))"
proof
  assume "mset (fetched ''Alpha'' (history 1001))
     = mset (filter (involves ''Alpha'') (messages (history 1001)))"
  then have "length (fetched ''Alpha'' (history 1001))
     = length (filter (involves ''Alpha'') (messages (history 1001)))"
    by (rule mset_eq_length)
  then show False
    by (simp add: fetched_up history_up history_involves_alpha history_length)
qed

section \<open>What send checks\<close>

text \<open>
  C8, as the code has it. The send route checks that the sender, the receiver and the
  content are present and nothing more: a request that lacks one of them is refused
  with the state unchanged, and every request that carries them is accepted and stored
  when the store answers, whatever the strings are (the empty string included) and
  whether or not the receiver was ever seen.
\<close>

theorem send_checks_presence_only:
  assumes "db_up w"
  shows "fst (post_messages (Some s) (Some r) (Some c) i t w)
           = Inr \<lparr>id_msg = i, sender = s, receiver = r, encrypted_content = c, timestamp = t\<rparr>
       \<and> messages (snd (post_messages (Some s) (Some r) (Some c) i t w))
           = messages w @ [\<lparr>id_msg = i, sender = s, receiver = r, encrypted_content = c,
                             timestamp = bson_datetime t\<rparr>]
       \<and> post_messages None rf cf i t w = (Inl ValidationError, w)
       \<and> post_messages sq None cf i t w = (Inl ValidationError, w)
       \<and> post_messages sq rf None i t w = (Inl ValidationError, w)"
  using assms
  by (simp add: post_messages_def MessageCreate_init_def send_message_up unregister_def msg_obj_def
      stored_doc_def split: option.splits)

text \<open>An instance: an empty sender writes to a receiver nobody has seen.\<close>

theorem send_checks_presence_only_witness:
  "db_up initial_world
   \<and> fst (post_messages (Some []) (Some ''Nobody'') (Some ''CIPHERTEXT_1'')
            ''22222222-2222-4222-8222-222222222222'' 0 initial_world)
       = Inr \<lparr>id_msg = ''22222222-2222-4222-8222-222222222222'', sender = [],
              receiver = ''Nobody'', encrypted_content = ''CIPHERTEXT_1'', timestamp = 0\<rparr>
   \<and> messages (snd (post_messages (Some []) (Some ''Nobody'') (Some ''CIPHERTEXT_1'')
            ''22222222-2222-4222-8222-222222222222'' 0 initial_world))
       = [\<lparr>id_msg = ''22222222-2222-4222-8222-222222222222'', sender = [],
              receiver = ''Nobody'', encrypted_content = ''CIPHERTEXT_1'', timestamp = 0\<rparr>]"
proof -
  have h: "db_up initial_world"
    by (simp add: initial_world_def)
  show ?thesis
    using h send_checks_presence_only [OF h, of "[]" "''Nobody''" "''CIPHERTEXT_1''"
        "''22222222-2222-4222-8222-222222222222''" 0]
    by (simp add: initial_world_def bson_datetime_def)
qed

text \<open>
  The claim as first stated has a send with an empty sender or receiver refused before
  any side effect. A request whose sender and receiver are both the empty string is
  accepted, and its message is stored.
\<close>

theorem empty_identities_accepted:
  "post_messages (Some []) (Some []) (Some ''CIPHERTEXT_1'')
       ''22222222-2222-4222-8222-222222222222'' 0 initial_world
     = (Inr \<lparr>id_msg = ''22222222-2222-4222-8222-222222222222'', sender = [], receiver = [],
             encrypted_content = ''CIPHERTEXT_1'', timestamp = 0\<rparr>,
        initial_world\<lparr>messages :=
          [\<lparr>id_msg = ''22222222-2222-4222-8222-222222222222'', sender = [], receiver = [],
             encrypted_content = ''CIPHERTEXT_1'', timestamp = 0\<rparr>]\<rparr>)"
  by (simp add: post_messages_def MessageCreate_init_def send_message_def messages_insert_one_def
      msg_obj_def stored_doc_def bson_datetime_def initial_world_def)

section \<open>Ping and pong\<close>

text \<open>
  C9. On a channel whose writes go through, the handler answers the text of every
  inbound frame with exactly one frame, the object with \<open>type\<close> \<open>pong\<close> and
  \<open>data\<close> the text as received, changes nothing else, and stays open: after any
  number of frames the channel has been sent one pong per frame, in the order of the
  frames, and the loop goes on with the next read.
\<close>

theorem ping_answered_with_one_pong:
  assumes "ws_fault w sock = None"
  shows "loop_body sock u (Text d) w
           = (Open, w\<lparr>outbox := outbox w @ [(sock, JObj [(''type'', JStr ''pong''), (''data'', JStr d)])]\<rparr>)
       \<and> ws_loop sock u [Text d] w
           = (Open, w\<lparr>outbox := outbox w @ [(sock, JObj [(''type'', JStr ''pong''), (''data'', JStr d)])]\<rparr>)
       \<and> ws_loop sock u (map Text ds) w
           = (Open, w\<lparr>outbox := outbox w
                @ map (\<lambda>d. (sock, JObj [(''type'', JStr ''pong''), (''data'', JStr d)])) ds\<rparr>)
       \<and> ws_loop sock u (map Text ds @ rs) w
           = ws_loop sock u rs
               (w\<lparr>outbox := outbox w
                    @ map (\<lambda>d. (sock, JObj [(''type'', JStr ''pong''), (''data'', JStr d)])) ds\<rparr>)
       \<and> websocket_endpoint sock u (map Text ds) w
           = (Inr Open,
              (register u sock w)\<lparr>outbox := outbox w
                @ map (\<lambda>d. (sock, JObj [(''type'', JStr ''pong''), (''data'', JStr d)])) ds\<rparr>)"
proof -
  have one: "loop_body sock u (Text d) w
           = (Open, w\<lparr>outbox := outbox w @ [(sock, JObj [(''type'', JStr ''pong''), (''data'', JStr d)])]\<rparr>)"
    using assms by (simp add: loop_body_def send_text_reaches)
  have more: "ws_loop sock u (map Text ds @ rs) w
           = ws_loop sock u rs
               (w\<lparr>outbox := outbox w
                    @ map (\<lambda>d. (sock, JObj [(''type'', JStr ''pong''), (''data'', JStr d)])) ds\<rparr>)"
    for rs
    using assms by (rule ws_loop_texts)
  have every: "ws_loop sock u (map Text ds) w
           = (Open, w\<lparr>outbox := outbox w
                @ map (\<lambda>d. (sock, JObj [(''type'', JStr ''pong''), (''data'', JStr d)])) ds\<rparr>)"
    using more [of "[]"] by simp
  have reg: "ws_fault (register u sock w) sock = None"
    using assms by (simp add: register_def)
  have "ws_loop sock u (map Text ds) (register u sock w)
           = (Open, (register u sock w)\<lparr>outbox := outbox (register u sock w)
                @ map (\<lambda>d. (sock, JObj [(''type'', JStr ''pong''), (''data'', JStr d)])) ds\<rparr>)"
    using ws_loop_texts [OF reg, of u ds "[]"] by simp
  then have whole: "websocket_endpoint sock u (map Text ds) w
           = (Inr Open,
              (register u sock w)\<lparr>outbox := outbox w
                @ map (\<lambda>d. (sock, JObj [(''type'', JStr ''pong''), (''data'', JStr d)])) ds\<rparr>)"
    using assms by (simp add: websocket_endpoint_def websocket_open_def accept_def) (simp add: register_def)
  have "ws_loop sock u [Text d] w
           = (Open, w\<lparr>outbox := outbox w @ [(sock, JObj [(''type'', JStr ''pong''), (''data'', JStr d)])]\<rparr>)"
    by (simp add: one)
  with one every more whole show ?thesis by blast
qed

text \<open>
  An instance: the channel opened for Alpha receives \<open>hello\<close> and then \<open>again\<close>;
  it is sent two pongs and stays open.
\<close>

theorem ping_answered_with_one_pong_witness:
  "ws_fault (register ''Alpha'' 1 initial_world) 1 = None
   \<and> loop_body 1 ''Alpha'' (Text ''hello'') (register ''Alpha'' 1 initial_world)
       = (Open, (register ''Alpha'' 1 initial_world)
                  \<lparr>outbox := [(1, JObj [(''type'', JStr ''pong''), (''data'', JStr ''hello'')])]\<rparr>)
   \<and> ws_loop 1 ''Alpha'' [Text ''hello'', Text ''again''] (register ''Alpha'' 1 initial_world)
       = (Open, (register ''Alpha'' 1 initial_world)
                  \<lparr>outbox := [(1, JObj [(''type'', JStr ''pong''), (''data'', JStr ''hello'')]),
                              (1, JObj [(''type'', JStr ''pong''), (''data'', JStr ''again'')])]\<rparr>)"
proof -
  have h: "ws_fault (register ''Alpha'' 1 initial_world) 1 = None"
    by (simp add: register_def initial_world_def)
  show ?thesis
    using h ping_answered_with_one_pong [OF h, of "''Alpha''" "''hello''" "[''hello'', ''again'']" "[]"]
    by (simp add: register_def initial_world_def del: ws_loop.simps)
qed

section \<open>Closing\<close>

text \<open>
  C10. A handler closes by unregistering its identity. A failed read, whatever the
  exception, ends the loop with the identity's entry removed from the state it met,
  also after any number of answered frames; so does a failed write of the pong. The
  whole handler, once its handshake has succeeded, ends closed with no entry for its
  identity when a read fails, and whenever a handler ends up closed its identity has
  no entry. Unregistering an identity that has no entry changes nothing and has no
  failure.
\<close>

theorem closing_unregisters:
  "(fst (websocket_endpoint sock u rs w) = Inr Closed \<longrightarrow>
      lookup u (snd (websocket_endpoint sock u rs w)) = None)
   \<and> loop_body sock u (Raised e) w = (Closed, unregister u w)
   \<and> (ws_fault w sock = Some e \<longrightarrow> loop_body sock u (Text d) w = (Closed, unregister u w))
   \<and> ws_loop sock u (Raised e # rs) w = (Closed, unregister u w)
   \<and> (ws_fault w sock = Some e \<longrightarrow> ws_loop sock u (Text d # rs) w = (Closed, unregister u w))
   \<and> (ws_fault w sock = None \<longrightarrow>
        ws_loop sock u (map Text ds @ Raised e # rs) w
          = (Closed,
             unregister u
               (w\<lparr>outbox := outbox w
                    @ map (\<lambda>d. (sock, JObj [(''type'', JStr ''pong''), (''data'', JStr d)])) ds\<rparr>)))
   \<and> websocket_endpoint sock u (Raised e # rs) w
       = (case ws_fault w sock of
            Some e' \<Rightarrow> (Inl e', w)
          | None \<Rightarrow> (Inr Closed, unregister u w))
   \<and> lookup u (unregister u w) = None
   \<and> (lookup u w = None \<longrightarrow> unregister u w = w)"
proof -
  have a: "fst (websocket_endpoint sock u rs w) = Inr Closed \<longrightarrow>
      lookup u (snd (websocket_endpoint sock u rs w)) = None"
    using websocket_endpoint_closed [of sock u rs w] by blast
  have b: "loop_body sock u (Raised e) w = (Closed, unregister u w)"
    by (simp add: loop_body_def on_exception_def)
  have c: "ws_fault w sock = Some e \<longrightarrow> loop_body sock u (Text d) w = (Closed, unregister u w)"
    by (simp add: loop_body_def on_exception_def send_text_def)
  have d: "ws_loop sock u (Raised e # rs) w = (Closed, unregister u w)"
    by (rule ws_loop_raised)
  have e: "ws_fault w sock = Some e \<longrightarrow> ws_loop sock u (Text d # rs) w = (Closed, unregister u w)"
    using c by simp
  have f: "ws_fault w sock = None \<longrightarrow>
        ws_loop sock u (map Text ds @ Raised e # rs) w
          = (Closed,
             unregister u
               (w\<lparr>outbox := outbox w
                    @ map (\<lambda>d. (sock, JObj [(''type'', JStr ''pong''), (''data'', JStr d)])) ds\<rparr>))"
    by (simp add: ws_loop_texts ws_loop_raised del: ws_loop.simps)
  have g: "websocket_endpoint sock u (Raised e # rs) w
       = (case ws_fault w sock of
            Some e' \<Rightarrow> (Inl e', w)
          | None \<Rightarrow> (Inr Closed, unregister u w))"
    by (simp add: websocket_endpoint_def websocket_open_def accept_def ws_loop_raised
        unregister_register del: ws_loop.simps split: option.splits)
  have h: "lookup u (unregister u w) = None"
    by (rule lookup_unregister)
  have i: "lookup u w = None \<longrightarrow> unregister u w = w"
    by (simp add: lookup_def unregister_def fun_upd_idem)
  from a b c d e f g h i show ?thesis by blast
qed

text \<open>
  Instances, each from a state in which Alpha has an entry. Alpha's peer leaves after
  one ping: the entry for channel 1 is gone. The write of the pong fails: the entry is
  gone. A handler for channel 1 starts while channel 5 is registered for Alpha and
  meets a failed read: Alpha has no entry left. Last, unregistering Alpha where Alpha
  has no entry leaves the state as it is.
\<close>

theorem closing_unregisters_witness:
  "lookup ''Alpha'' (register ''Alpha'' 1 initial_world) = Some 1
   \<and> ws_fault (register ''Alpha'' 1 initial_world) 1 = None
   \<and> ws_loop 1 ''Alpha'' [Text ''hello'', Raised WebSocketDisconnect, Text ''late'']
        (register ''Alpha'' 1 initial_world)
       = (Closed,
          initial_world\<lparr>outbox := [(1, JObj [(''type'', JStr ''pong''), (''data'', JStr ''hello'')])]\<rparr>)
   \<and> lookup ''Alpha''
        (snd (ws_loop 1 ''Alpha'' [Text ''hello'', Raised WebSocketDisconnect, Text ''late'']
                (register ''Alpha'' 1 initial_world))) = None
   \<and> lookup ''Alpha'' (register ''Alpha'' 1 (initial_world\<lparr>ws_fault := [1 \<mapsto> TransportError]\<rparr>))
       = Some 1
   \<and> ws_fault (register ''Alpha'' 1 (initial_world\<lparr>ws_fault := [1 \<mapsto> TransportError]\<rparr>)) 1
       = Some TransportError
   \<and> ws_loop 1 ''Alpha'' [Text ''hello'', Text ''again'']
        (register ''Alpha'' 1 (initial_world\<lparr>ws_fault := [1 \<mapsto> TransportError]\<rparr>))
       = (Closed, initial_world\<lparr>ws_fault := [1 \<mapsto> TransportError]\<rparr>)
   \<and> lookup ''Alpha'' (register ''Alpha'' 5 initial_world) = Some 5
   \<and> websocket_endpoint 1 ''Alpha'' [Raised TransportError] (register ''Alpha'' 5 initial_world)
       = (Inr Closed, initial_world)
   \<and> lookup ''Alpha''
        (snd (websocket_endpoint 1 ''Alpha'' [Raised TransportError]
                (register ''Alpha'' 5 initial_world))) = None
   \<and> lookup ''Alpha'' initial_world = None
   \<and> unregister ''Alpha'' initial_world = initial_world"
proof -
  let ?w = "register ''Alpha'' 1 initial_world"
  let ?b = "register ''Alpha'' 1 (initial_world\<lparr>ws_fault := [1 \<mapsto> TransportError]\<rparr>)"
  let ?o = "register ''Alpha'' 5 initial_world"
  have h1: "lookup ''Alpha'' ?w = Some 1" and h2: "ws_fault ?w 1 = None"
    by (simp_all add: lookup_def register_def initial_world_def)
  have h3: "lookup ''Alpha'' ?b = Some 1" and h4: "ws_fault ?b 1 = Some TransportError"
    by (simp_all add: lookup_def register_def)
  have h5: "lookup ''Alpha'' ?o = Some 5" and h6: "ws_fault ?o 1 = None"
    by (simp_all add: lookup_def register_def initial_world_def)
  have h7: "lookup ''Alpha'' initial_world = None"
    by (simp add: lookup_def initial_world_def)
  show ?thesis
    using h1 h2 h3 h4 h5 h6 h7
      closing_unregisters [of 1 "''Alpha''" "[Text ''late'']" ?w WebSocketDisconnect "''x''" "[''hello'']"]
      closing_unregisters [of 1 "''Alpha''" "[Text ''again'']" ?b TransportError "''hello''" "[]"]
      closing_unregisters [of 1 "''Alpha''" "[]" ?o TransportError "''x''" "[]"]
      closing_unregisters [of 1 "''Alpha''" "[]" initial_world TransportError "''x''" "[]"]
    by (simp add: lookup_def register_def unregister_def initial_world_def del: ws_loop.simps)
qed

end
